theory Spec2Isabelle
  imports Complex_Main "HOL-Library.Log_Nat" "HOL-Library.Sublist"
begin

section \<open>Strings\<close>

text \<open>
  A Python \<open>str\<close> is modelled as a \<open>string\<close> whose characters are the code points below 256.
  \<open>isspace\<close> is the whitespace test that \<open>str.strip\<close>, \<open>str.split\<close> and the pattern \<open>\s\<close> of
  \<open>re\<close> share on that range: the code points 9 to 13, 28 to 32, 133 and 160.
\<close>

definition isspace :: "char \<Rightarrow> bool" where
  "isspace c = (let n = (of_char c :: nat) in
     (9 \<le> n \<and> n \<le> 13) \<or> (28 \<le> n \<and> n \<le> 32) \<or> n = 133 \<or> n = 160)"

text \<open>\<open>s.strip()\<close>\<close>

definition strip :: "string \<Rightarrow> string" where
  "strip s = rev (dropWhile isspace (rev (dropWhile isspace s)))"

text \<open>\<open>sep.join(xs)\<close>\<close>

fun join :: "string \<Rightarrow> string list \<Rightarrow> string" where
  "join sep [] = []"
| "join sep [s] = s"
| "join sep (s # t # ts) = s @ sep @ join sep (t # ts)"

text \<open>\<open>s.split(c)\<close> for a one-character separator: the empty string gives one empty field.\<close>

fun split_on :: "char \<Rightarrow> string \<Rightarrow> string list" where
  "split_on c [] = [[]]"
| "split_on c (a # as) =
     (if a = c then [] # split_on c as
      else (case split_on c as of [] \<Rightarrow> [[a]] | l # ls \<Rightarrow> (a # l) # ls))"

text \<open>
  \<open>s.split()\<close>: the maximal runs of characters that are not whitespace. \<open>split_from w s\<close>
  carries the word \<open>w\<close> read so far.
\<close>

fun split_from :: "string \<Rightarrow> string \<Rightarrow> string list" where
  "split_from w [] = (if w = [] then [] else [w])"
| "split_from w (c # cs) =
     (if isspace c then (if w = [] then split_from [] cs else w # split_from [] cs)
      else split_from (w @ [c]) cs)"

definition split_ws :: "string \<Rightarrow> string list" where
  "split_ws s = split_from [] s"

text \<open>
  \<open>re.sub(r'<[^>]+>', ' ', s)\<close>: scanning from the left, a \<open><\<close> followed by at least one
  character other than \<open>>\<close> and then a \<open>>\<close> is replaced, with everything between, by one
  space; any other character is kept.
\<close>

function sub_tags :: "string \<Rightarrow> string" where
  "sub_tags [] = []"
| "sub_tags (c # cs) =
     (if c = CHR ''<'' \<and> takeWhile (\<lambda>a. a \<noteq> CHR ''>'') cs \<noteq> []
                     \<and> dropWhile (\<lambda>a. a \<noteq> CHR ''>'') cs \<noteq> []
      then CHR '' '' # sub_tags (tl (dropWhile (\<lambda>a. a \<noteq> CHR ''>'') cs))
      else c # sub_tags cs)"
  by pat_completeness auto
termination
  by (relation "measure length")
     (auto simp: length_dropWhile_le less_Suc_eq_le intro: le_trans [OF diff_le_self])

text \<open>\<open>re.sub(r'\s+', ' ', s)\<close>: every maximal run of whitespace becomes one space.\<close>

function sub_spaces :: "string \<Rightarrow> string" where
  "sub_spaces [] = []"
| "sub_spaces (c # cs) =
     (if isspace c then CHR '' '' # sub_spaces (dropWhile isspace cs) else c # sub_spaces cs)"
  by pat_completeness auto
termination
  by (relation "measure length") (auto simp: le_imp_less_Suc length_dropWhile_le)

section \<open>Exceptions and numbers\<close>

text \<open>
  The exceptions that the modelled code can raise. A function that can raise returns
  \<open>error + 'a\<close>, with \<open>Inl\<close> for the exception. \<open>ExternalError\<close> is an exception of a
  collaborator (the image library, the inference call). \<open>Unmodelled\<close> is no exception of
  the program: it marks a JSON string escape that denotes a code point above 255, which the
  strings here cannot hold.
\<close>

datatype error =
    ImportError | JSONDecodeError | AssertionError | ValueError | TypeError
  | OverflowError | ZeroDivisionError | RecursionError | Unmodelled | ExternalError string

text \<open>
  A Python \<open>float\<close> is a binary64 value: \<open>Finite k p\<close> stands for \<open>k * 2 ^ p\<close>, \<open>Infinite s\<close> for
  the infinity of sign \<open>s\<close> (\<open>True\<close> is negative). The sign of a zero is not kept: no
  operation used here can observe it.

  \<open>round_double n d\<close> is the binary64 value nearest to the fraction \<open>n / d\<close> (for \<open>d > 0\<close>),
  ties to even: with \<open>e = ilog2 \<bar>n\<bar> d\<close> the exponent of the fraction, the result is a multiple
  \<open>k\<close> of \<open>2 ^ p\<close> for \<open>p = max (e - 52) (- 1074)\<close>, and it overflows to an infinity from
  \<open>2 ^ 1024\<close> on. Conversion of an \<open>int\<close>, true division of two \<open>int\<close>s, multiplication of
  two floats and the reading of a decimal literal are all correctly rounded, so each is
  \<open>round_double\<close> of its exact result.
\<close>

datatype pyfloat = Finite int int | Infinite bool | NaN

definition ilog2 :: "int \<Rightarrow> int \<Rightarrow> int" where
  "ilog2 a d = (let e0 = bitlen a - bitlen d in
     if d * 2 ^ nat e0 \<le> a * 2 ^ nat (- e0) then e0 else e0 - 1)"

definition round_double :: "int \<Rightarrow> int \<Rightarrow> pyfloat" where
  "round_double n d =
     (if n = 0 then Finite 0 0
      else let a = \<bar>n\<bar>;
               p = max (ilog2 a d - 52) (- 1074);
               N = a * 2 ^ nat (- p);
               D = d * 2 ^ nat p;
               q = N div D;
               r = N mod D;
               k = (if D < 2 * r \<or> (2 * r = D \<and> odd q) then q + 1 else q)
           in if 0 \<le> p \<and> 2 ^ 1024 \<le> k * 2 ^ nat p then Infinite (n < 0)
              else Finite (sgn n * k) p)"

text \<open>\<open>float(n)\<close> as done for \<open>n * f\<close>: too large an \<open>int\<close> raises \<open>OverflowError\<close>.\<close>

definition float_of_int :: "int \<Rightarrow> error + pyfloat" where
  "float_of_int n = (case round_double n 1 of Infinite s \<Rightarrow> Inl OverflowError | f \<Rightarrow> Inr f)"

text \<open>\<open>a / b\<close> on two \<open>int\<close>s.\<close>

definition int_truediv :: "int \<Rightarrow> int \<Rightarrow> error + pyfloat" where
  "int_truediv a b =
     (if b = 0 then Inl ZeroDivisionError
      else (case round_double (a * sgn b) \<bar>b\<bar> of Infinite s \<Rightarrow> Inl OverflowError | f \<Rightarrow> Inr f))"

text \<open>\<open>f * g\<close> on two floats: an overflow gives an infinity, no exception.\<close>

fun float_mul :: "pyfloat \<Rightarrow> pyfloat \<Rightarrow> pyfloat" where
  "float_mul (Finite k1 p1) (Finite k2 p2) =
     round_double (k1 * k2 * 2 ^ nat (p1 + p2)) (2 ^ nat (- (p1 + p2)))"
| "float_mul (Finite k p) (Infinite s) = (if k = 0 then NaN else Infinite (s \<noteq> (k < 0)))"
| "float_mul (Infinite s) (Finite k p) = (if k = 0 then NaN else Infinite (s \<noteq> (k < 0)))"
| "float_mul (Infinite s) (Infinite t) = Infinite (s \<noteq> t)"
| "float_mul NaN _ = NaN"
| "float_mul _ NaN = NaN"

text \<open>\<open>int(f)\<close>: truncation towards zero.\<close>

fun int_of_float :: "pyfloat \<Rightarrow> error + int" where
  "int_of_float (Finite k p) =
     Inr (if 0 \<le> p then k * 2 ^ nat p else sgn k * (\<bar>k\<bar> div 2 ^ nat (- p)))"
| "int_of_float (Infinite s) = Inl OverflowError"
| "int_of_float NaN = Inl ValueError"

text \<open>\<open>int(n * f)\<close> for an \<open>int\<close> \<open>n\<close> and a float \<open>f\<close>.\<close>

definition int_times_float :: "int \<Rightarrow> pyfloat \<Rightarrow> error + int" where
  "int_times_float n f =
     (case float_of_int n of Inl e \<Rightarrow> Inl e | Inr g \<Rightarrow> int_of_float (float_mul g f))"


fun float_negative :: "pyfloat \<Rightarrow> bool" where
  "float_negative (Finite k p) = (k < 0)"
| "float_negative (Infinite s) = s"
| "float_negative NaN = False"

text \<open>
  \<open>int(s)\<close> on a \<open>str\<close>: surrounding whitespace is dropped, a sign may come first, and the
  digits may be separated by single underscores.
\<close>

definition is_digit :: "char \<Rightarrow> bool" where
  "is_digit c = (let n = (of_char c :: nat) in 48 \<le> n \<and> n \<le> 57)"

definition digits_val :: "string \<Rightarrow> nat" where
  "digits_val ds = foldl (\<lambda>a c. 10 * a + (of_char c - 48)) 0 ds"

fun separated_digits :: "string \<Rightarrow> bool" where
  "separated_digits [] = True"
| "separated_digits (c # cs) =
     (if is_digit c then separated_digits cs
      else c = CHR ''_'' \<and> cs \<noteq> [] \<and> is_digit (hd cs) \<and> separated_digits cs)"

definition int_body_ok :: "string \<Rightarrow> bool" where
  "int_body_ok b = (b \<noteq> [] \<and> is_digit (hd b) \<and> separated_digits (tl b))"

definition int_of_str :: "string \<Rightarrow> error + int" where
  "int_of_str s =
     (let t = strip s;
          neg = (t \<noteq> [] \<and> hd t = CHR ''-'');
          b = (if t \<noteq> [] \<and> (hd t = CHR ''-'' \<or> hd t = CHR ''+'') then tl t else t)
      in if int_body_ok b
         then Inr ((if neg then - 1 else 1) * int (digits_val (filter is_digit b)))
         else Inl ValueError)"

text \<open>\<open>list(map(f, xs))\<close> for an \<open>f\<close> that can raise: the first exception ends the map.\<close>

fun map_raise :: "('a \<Rightarrow> error + 'b) \<Rightarrow> 'a list \<Rightarrow> error + 'b list" where
  "map_raise f [] = Inr []"
| "map_raise f (a # as) =
     (case f a of
        Inl e \<Rightarrow> Inl e
      | Inr b \<Rightarrow> (case map_raise f as of Inl e \<Rightarrow> Inl e | Inr bs \<Rightarrow> Inr (b # bs)))"


section \<open>JSON values\<close>

text \<open>
  \<open>json.loads\<close> is the standard library's decoder; the model follows its grammar. A value
  is \<open>null\<close>, \<open>true\<close>, \<open>false\<close>, a number (an \<open>int\<close> when it has neither a fraction nor an
  exponent, a \<open>float\<close> otherwise), \<open>NaN\<close>, \<open>Infinity\<close>, \<open>-Infinity\<close>, a string, an array or an
  object; only blanks, tabs, newlines and carriage returns may surround values. An object
  keeps its members as they are written: the dictionary has the distinct keys, in the
  order of their first occurrence.
\<close>

datatype json =
    JNull | JBool bool | JInt int | JFloat pyfloat | JString string
  | JArray "json list" | JObject "(string \<times> json) list"

definition json_ws :: "char \<Rightarrow> bool" where
  "json_ws c = (c = CHR '' '' \<or> c = CHR 0x09 \<or> c = CHR 0x0A \<or> c = CHR 0x0D)"

definition skip_ws :: "string \<Rightarrow> string" where
  "skip_ws s = dropWhile json_ws s"

text \<open>The float written as the decimal \<open>m * 10 ^ e\<close>, negated if \<open>neg\<close>.\<close>

definition float_of_decimal :: "bool \<Rightarrow> nat \<Rightarrow> int \<Rightarrow> pyfloat" where
  "float_of_decimal neg m e =
     (let n = (if neg then - int m else int m)
      in if 0 \<le> e then round_double (n * 10 ^ nat e) 1 else round_double n (10 ^ nat (- e)))"

text \<open>
  The number at the start of \<open>s\<close>, if any, and what follows it: an optional minus sign,
  \<open>0\<close> or digits without a leading zero, then a fraction (a point and digits) and an
  exponent (\<open>e\<close> or \<open>E\<close>, a sign, digits), each taken only when complete.
\<close>

definition match_number :: "string \<Rightarrow> (json \<times> string) option" where
  "match_number s =
     (let neg = (s \<noteq> [] \<and> hd s = CHR ''-'');
          s1 = (if neg then tl s else s);
          ip = (if s1 \<noteq> [] \<and> hd s1 = CHR ''0'' then ''0'' else takeWhile is_digit s1);
          s2 = drop (length ip) s1;
          fr = (if s2 \<noteq> [] \<and> hd s2 = CHR ''.'' then takeWhile is_digit (tl s2) else []);
          s3 = (if fr = [] then s2 else drop (Suc (length fr)) s2);
          has_e = (s3 \<noteq> [] \<and> (hd s3 = CHR ''e'' \<or> hd s3 = CHR ''E''));
          s4 = (if has_e then tl s3 else s3);
          esign = (has_e \<and> s4 \<noteq> [] \<and> (hd s4 = CHR ''-'' \<or> hd s4 = CHR ''+''));
          eneg = (esign \<and> hd s4 = CHR ''-'');
          s5 = (if esign then tl s4 else s4);
          ex = (if has_e then takeWhile is_digit s5 else []);
          rest = (if ex = [] then s3 else drop (length ex) s5)
      in if ip = [] then None
         else if fr = [] \<and> ex = [] then
           Some (JInt ((if neg then - 1 else 1) * int (digits_val ip)), rest)
         else
           Some (JFloat (float_of_decimal neg (digits_val (ip @ fr))
                   ((if eneg then - 1 else 1) * int (digits_val ex) - int (length fr))), rest))"

definition is_hex :: "char \<Rightarrow> bool" where
  "is_hex c = (let n = (of_char c :: nat) in
     (48 \<le> n \<and> n \<le> 57) \<or> (65 \<le> n \<and> n \<le> 70) \<or> (97 \<le> n \<and> n \<le> 102))"

definition hex_val :: "string \<Rightarrow> nat" where
  "hex_val hs = foldl (\<lambda>a c. 16 * a + (let n = (of_char c :: nat) in
      if n \<le> 57 then n - 48 else if n \<le> 70 then n - 55 else n - 87)) 0 hs"

text \<open>The character after a backslash: quote, backslash, slash, b, f, n, r, t.\<close>

definition unescape :: "char \<Rightarrow> char option" where
  "unescape c =
     (if c = CHR 0x22 then Some (CHR 0x22)
      else if c = CHR 0x5C then Some (CHR 0x5C)
      else if c = CHR ''/'' then Some (CHR ''/'')
      else if c = CHR ''b'' then Some (CHR 0x08)
      else if c = CHR ''f'' then Some (CHR 0x0C)
      else if c = CHR ''n'' then Some (CHR 0x0A)
      else if c = CHR ''r'' then Some (CHR 0x0D)
      else if c = CHR ''t'' then Some (CHR 0x09)
      else None)"

text \<open>
  The body of a string, after its opening quote, up to the closing quote. A control
  character is refused (the decoder is strict); \<open>\uXXXX\<close> takes four hexadecimal digits.
\<close>

fun scanstring :: "string \<Rightarrow> string \<Rightarrow> error + string \<times> string" where
  "scanstring acc [] = Inl JSONDecodeError"
| "scanstring acc (c # cs) =
     (if c = CHR 0x22 then Inr (acc, cs)
      else if c = CHR 0x5C then
        (if cs = [] then Inl JSONDecodeError
         else if hd cs = CHR ''u'' then
           (let hs = take 4 (tl cs)
            in if length hs = 4 \<and> list_all is_hex hs
               then (if hex_val hs < 256
                     then scanstring (acc @ [char_of (hex_val hs)]) (drop 4 (tl cs))
                     else Inl Unmodelled)
               else Inl JSONDecodeError)
         else (case unescape (hd cs) of
                 None \<Rightarrow> Inl JSONDecodeError
               | Some ch \<Rightarrow> scanstring (acc @ [ch]) (tl cs)))
      else if (of_char c :: nat) < 32 then Inl JSONDecodeError
      else scanstring (acc @ [c]) cs)"

text \<open>
  The decoder proper. The first argument bounds the nesting depth; \<open>json_loads\<close> starts it
  above the length of the text, which no nesting can reach.
\<close>

fun scan_once :: "nat \<Rightarrow> string \<Rightarrow> error + json \<times> string"
and parse_array :: "nat \<Rightarrow> json list \<Rightarrow> string \<Rightarrow> error + json \<times> string"
and parse_object :: "nat \<Rightarrow> (string \<times> json) list \<Rightarrow> string \<Rightarrow> error + json \<times> string"
where
  "scan_once 0 s = Inl RecursionError"
| "scan_once (Suc n) s =
     (if s = [] then Inl JSONDecodeError
      else if hd s = CHR 0x22 then
        (case scanstring [] (tl s) of Inl e \<Rightarrow> Inl e | Inr (str, rest) \<Rightarrow> Inr (JString str, rest))
      else if hd s = CHR ''{'' then
        (let s1 = skip_ws (tl s)
         in if s1 \<noteq> [] \<and> hd s1 = CHR ''}'' then Inr (JObject [], tl s1)
            else parse_object n [] s1)
      else if hd s = CHR ''['' then
        (let s1 = skip_ws (tl s)
         in if s1 \<noteq> [] \<and> hd s1 = CHR '']'' then Inr (JArray [], tl s1)
            else parse_array n [] s1)
      else if take 4 s = ''null'' then Inr (JNull, drop 4 s)
      else if take 4 s = ''true'' then Inr (JBool True, drop 4 s)
      else if take 5 s = ''false'' then Inr (JBool False, drop 5 s)
      else (case match_number s of
              Some r \<Rightarrow> Inr r
            | None \<Rightarrow>
               if take 3 s = ''NaN'' then Inr (JFloat NaN, drop 3 s)
               else if take 8 s = ''Infinity'' then Inr (JFloat (Infinite False), drop 8 s)
               else if take 9 s = ''-Infinity'' then Inr (JFloat (Infinite True), drop 9 s)
               else Inl JSONDecodeError))"
| "parse_array 0 acc s = Inl RecursionError"
| "parse_array (Suc n) acc s =
     (case scan_once n s of
        Inl e \<Rightarrow> Inl e
      | Inr (v, rest) \<Rightarrow>
          (let s1 = skip_ws rest
           in if s1 \<noteq> [] \<and> hd s1 = CHR '']'' then Inr (JArray (acc @ [v]), tl s1)
              else if s1 \<noteq> [] \<and> hd s1 = CHR '','' then parse_array n (acc @ [v]) (skip_ws (tl s1))
              else Inl JSONDecodeError))"
| "parse_object 0 acc s = Inl RecursionError"
| "parse_object (Suc n) acc s =
     (if s = [] \<or> hd s \<noteq> CHR 0x22 then Inl JSONDecodeError
      else (case scanstring [] (tl s) of
              Inl e \<Rightarrow> Inl e
            | Inr (key, rest) \<Rightarrow>
                (let s1 = skip_ws rest
                 in if s1 = [] \<or> hd s1 \<noteq> CHR '':'' then Inl JSONDecodeError
                    else (case scan_once n (skip_ws (tl s1)) of
                            Inl e \<Rightarrow> Inl e
                          | Inr (v, rest2) \<Rightarrow>
                              (let s2 = skip_ws rest2
                               in if s2 \<noteq> [] \<and> hd s2 = CHR ''}'' then
                                    Inr (JObject (acc @ [(key, v)]), tl s2)
                                  else if s2 \<noteq> [] \<and> hd s2 = CHR '','' then
                                    parse_object n (acc @ [(key, v)]) (skip_ws (tl s2))
                                  else Inl JSONDecodeError)))))"

definition json_loads :: "string \<Rightarrow> error + json" where
  "json_loads s =
     (case scan_once (Suc (length s)) (skip_ws s) of
        Inl e \<Rightarrow> Inl e
      | Inr (v, rest) \<Rightarrow> if skip_ws rest = [] then Inr v else Inl JSONDecodeError)"

text \<open>\<open>len(v)\<close>, the elements that iterating over \<open>v\<close> gives, and \<open>int(v)\<close>.\<close>

fun py_len :: "json \<Rightarrow> error + nat" where
  "py_len (JArray vs) = Inr (length vs)"
| "py_len (JString s) = Inr (length s)"
| "py_len (JObject kvs) = Inr (length (remdups (map fst kvs)))"
| "py_len _ = Inl TypeError"

fun py_iter :: "json \<Rightarrow> json list" where
  "py_iter (JArray vs) = vs"
| "py_iter (JString s) = map (\<lambda>c. JString [c]) s"
| "py_iter (JObject kvs) = map JString (rev (remdups (rev (map fst kvs))))"
| "py_iter _ = []"

fun py_int :: "json \<Rightarrow> error + int" where
  "py_int (JInt n) = Inr n"
| "py_int (JBool b) = Inr (if b then 1 else 0)"
| "py_int (JFloat f) = int_of_float f"
| "py_int (JString s) = int_of_str s"
| "py_int _ = Inl TypeError"

section \<open>The markup tree\<close>

text \<open>
  \<open>BeautifulSoup(raw_html, "html.parser")\<close> is the third-party parser; its result, the list
  of the children of the document root, is what the functions below work on. A child is
  a text node, a comment, or a tag with its name, its attribute dictionary (an
  association list, each name once) and its children.
\<close>

datatype node =
    NavigableString string
  | Comment string
  | Tag string "(string \<times> string) list" "node list"

text \<open>
  The markup parser as the program sees it: \<open>None\<close> when \<open>from bs4 import BeautifulSoup\<close>
  raises \<open>ImportError\<close>, otherwise the function from the markup to the root's children.
\<close>

type_synonym bs4 = "(string \<Rightarrow> node list) option"

text \<open>\<open>soup.find_all("div", recursive=False)\<close>\<close>

fun is_div :: "node \<Rightarrow> bool" where
  "is_div (Tag name attrs children) = (name = ''div'')"
| "is_div _ = False"

definition find_all_div :: "node list \<Rightarrow> node list" where
  "find_all_div soup = filter is_div soup"

text \<open>\<open>tag.get(key)\<close>, \<open>None\<close> for a node without attributes.\<close>

fun get_attr :: "node \<Rightarrow> string \<Rightarrow> string option" where
  "get_attr (Tag name attrs children) key = map_of attrs key"
| "get_attr _ key = None"

text \<open>
  \<open>tag.get_text(separator=" ", strip=True)\<close>: the text nodes below the tag in document
  order, each stripped, the empty ones skipped, joined by the separator. Comments are
  not text.
\<close>

fun all_strings :: "node \<Rightarrow> string list" where
  "all_strings (NavigableString s) = (let t = strip s in if t = [] then [] else [t])"
| "all_strings (Comment s) = []"
| "all_strings (Tag name attrs children) = concat (map all_strings children)"

definition get_text :: "node \<Rightarrow> string" where
  "get_text n = join '' '' (all_strings n)"

section \<open>Layout block parser\<close>

definition BBOX_SCALE :: int where
  "BBOX_SCALE = 1024"

text \<open>
  The inner \<open>try\<close> of \<open>parse_layout_blocks\<close>: the attribute split at whitespace, each word
  read by \<open>int\<close>; \<open>ValueError\<close> and a length other than four leave no box.
\<close>

definition bbox_of_words :: "string \<Rightarrow> error + int list option" where
  "bbox_of_words bbox_str =
     (case map_raise int_of_str (split_ws bbox_str) of
        Inl e \<Rightarrow> if e = ValueError \<or> e = AssertionError then Inr None else Inl e
      | Inr bbox \<Rightarrow> if length bbox = 4 then Inr (Some bbox) else Inr None)"

text \<open>
  The body of the outer \<open>try\<close>: \<open>bbox = json.loads(bbox_str)\<close> and \<open>assert len(bbox) == 4\<close>.
  \<open>len\<close> of a number, a boolean or \<open>null\<close> raises \<open>TypeError\<close>.
\<close>

definition bbox_of_json :: "string \<Rightarrow> error + json" where
  "bbox_of_json bbox_str =
     (case json_loads bbox_str of
        Inl e \<Rightarrow> Inl e
      | Inr bbox \<Rightarrow>
          (case py_len bbox of
             Inl e \<Rightarrow> Inl e
           | Inr n \<Rightarrow> if n = 4 then Inr bbox else Inl AssertionError))"

text \<open>
  From \<open>bbox = None\<close> to \<open>bbox = list(map(int, bbox))\<close>: \<open>Inr None\<close> where the loop
  continues with the next block, \<open>Inl\<close> where an exception leaves the function. The outer
  \<open>except\<close> catches \<open>JSONDecodeError\<close> and \<open>AssertionError\<close> only, and the conversion of the
  JSON value's elements to \<open>int\<close> stands outside both \<open>try\<close> blocks.
\<close>

definition parse_bbox :: "string option \<Rightarrow> error + int list option" where
  "parse_bbox bbox_str =
     (case bbox_str of
        None \<Rightarrow> Inr None
      | Some s \<Rightarrow>
          if s = [] then Inr None
          else (case bbox_of_json s of
                  Inr bbox \<Rightarrow>
                    (case map_raise py_int (py_iter bbox) of
                       Inl e \<Rightarrow> Inl e
                     | Inr ints \<Rightarrow> Inr (Some ints))
                | Inl e \<Rightarrow>
                    if e = JSONDecodeError \<or> e = AssertionError then bbox_of_words s else Inl e))"

text \<open>The dictionary appended for a block.\<close>

record block =
  "text" :: string
  x :: int
  y :: int
  width :: int
  height :: int
  label :: string
  estimated :: bool

text \<open>
  One turn of the loop over the top-level \<open>div\<close>s: \<open>Inr (Some b)\<close> when \<open>b\<close> is appended,
  \<open>Inr None\<close> when the block is skipped.
\<close>

definition block_of_div ::
  "pyfloat \<Rightarrow> pyfloat \<Rightarrow> int \<Rightarrow> int \<Rightarrow> node \<Rightarrow> error + block option" where
  "block_of_div width_scaler height_scaler image_width image_height tag =
     (let bbox_str = get_attr tag ''data-bbox'';
          lab = (case get_attr tag ''data-label'' of None \<Rightarrow> ''Text'' | Some v \<Rightarrow> v)
      in case parse_bbox bbox_str of
           Inl e \<Rightarrow> Inl e
         | Inr None \<Rightarrow> Inr None
         | Inr (Some bbox) \<Rightarrow>
            (case int_times_float (bbox ! 0) width_scaler of Inl e \<Rightarrow> Inl e | Inr a \<Rightarrow>
            (case int_times_float (bbox ! 1) height_scaler of Inl e \<Rightarrow> Inl e | Inr b \<Rightarrow>
            (case int_times_float (bbox ! 2) width_scaler of Inl e \<Rightarrow> Inl e | Inr c \<Rightarrow>
            (case int_times_float (bbox ! 3) height_scaler of Inl e \<Rightarrow> Inl e | Inr d \<Rightarrow>
              (let x1 = max 0 a; y1 = max 0 b;
                   x2 = min c image_width; y2 = min d image_height;
                   w = x2 - x1; h = y2 - y1
               in if w \<le> 0 \<or> h \<le> 0 then Inr None
                  else (let t = get_text tag
                        in if t \<noteq> [] then
                             Inr (Some \<lparr>text = t, x = x1, y = y1, width = w, height = h,
                                        label = lab, estimated = False\<rparr>)
                           else Inr None)))))))"

fun collect_blocks ::
  "pyfloat \<Rightarrow> pyfloat \<Rightarrow> int \<Rightarrow> int \<Rightarrow> node list \<Rightarrow> block list \<Rightarrow> error + block list" where
  "collect_blocks ws hs iw ih [] blocks = Inr blocks"
| "collect_blocks ws hs iw ih (tag # tags) blocks =
     (case block_of_div ws hs iw ih tag of
        Inl e \<Rightarrow> Inl e
      | Inr None \<Rightarrow> collect_blocks ws hs iw ih tags blocks
      | Inr (Some b) \<Rightarrow> collect_blocks ws hs iw ih tags (blocks @ [b]))"

definition parse_layout_blocks :: "bs4 \<Rightarrow> string \<Rightarrow> int \<Rightarrow> int \<Rightarrow> error + block list" where
  "parse_layout_blocks bs raw_html image_width image_height =
     (case bs of
        None \<Rightarrow> Inl ImportError
      | Some BeautifulSoup \<Rightarrow>
          (let top_level_divs = find_all_div (BeautifulSoup raw_html)
           in case int_truediv image_width BBOX_SCALE of
                Inl e \<Rightarrow> Inl e
              | Inr width_scaler \<Rightarrow>
                 (case int_truediv image_height BBOX_SCALE of
                    Inl e \<Rightarrow> Inl e
                  | Inr height_scaler \<Rightarrow>
                      collect_blocks width_scaler height_scaler image_width image_height
                        top_level_divs [])))"

section \<open>Text assembly fallback\<close>

text \<open>
  \<open>extract_text_from_html\<close>: with the markup parser, the non-empty texts of the top-level
  \<open>div\<close>s; without it (\<open>except ImportError\<close>), tags are removed by the regular expression,
  whitespace is collapsed and the text is split at newlines.
\<close>

definition extract_text_from_html :: "bs4 \<Rightarrow> string \<Rightarrow> string \<times> string list" where
  "extract_text_from_html bs raw_html =
     (case bs of
        Some BeautifulSoup \<Rightarrow>
          (let texts = filter (\<lambda>t. t \<noteq> []) (map get_text (find_all_div (BeautifulSoup raw_html)))
           in (join ''\<newline>'' texts, texts))
      | None \<Rightarrow>
          (let txt = strip (sub_spaces (sub_tags raw_html));
               lines = map strip (filter (\<lambda>line. strip line \<noteq> []) (split_on CHR ''\<newline>'' txt))
           in (txt, lines)))"

section \<open>Image size normalizer and extraction pipeline\<close>

text \<open>
  What the program reaches outside itself: the markup parser; whether the image library
  can be imported; \<open>Image.open(path).size\<close>, or the exception of opening or decoding;
  \<open>f ** 0.5\<close> on a float that is not negative (the platform's \<open>pow\<close>); resizing and
  saving, which gives the path of the new file; \<open>Path(p).exists()\<close>; whether the model
  directory exists; and the inference call from the image path to the generated markup.
\<close>

record env =
  env_bs4 :: bs4
  env_PIL :: bool
  env_open_size :: "string \<Rightarrow> error + int \<times> int"
  env_pow_half :: "pyfloat \<Rightarrow> pyfloat"
  env_resize_save :: "string \<Rightarrow> int \<times> int \<Rightarrow> error + string"
  env_exists :: "string \<Rightarrow> bool"
  env_model :: bool
  env_generate :: "string \<Rightarrow> error + string"

text \<open>
  \<open>resize_image_if_needed\<close>. Only the import stands in a \<open>try\<close>. A negative ratio has a
  complex square root, which \<open>int\<close> refuses with \<open>TypeError\<close>.
\<close>

definition resize_image_if_needed ::
  "env \<Rightarrow> string \<Rightarrow> int \<Rightarrow> error + string \<times> int \<times> int" where
  "resize_image_if_needed env image_path max_pixels =
     (if \<not> env_PIL env then Inr (image_path, (0, 0))
      else (case env_open_size env image_path of
              Inl e \<Rightarrow> Inl e
            | Inr (original_width, original_height) \<Rightarrow>
                (let total_pixels = original_width * original_height
                 in if total_pixels \<le> max_pixels
                    then Inr (image_path, (original_width, original_height))
                    else (case int_truediv max_pixels total_pixels of
                            Inl e \<Rightarrow> Inl e
                          | Inr ratio \<Rightarrow>
                              if float_negative ratio then
                                (case float_of_int original_width of
                                   Inl e \<Rightarrow> Inl e
                                 | Inr f \<Rightarrow> Inl TypeError)
                              else
                                (let scale = env_pow_half env ratio
                                 in case int_times_float original_width scale of
                                      Inl e \<Rightarrow> Inl e
                                    | Inr new_width \<Rightarrow>
                                       (case int_times_float original_height scale of
                                          Inl e \<Rightarrow> Inl e
                                        | Inr new_height \<Rightarrow>
                                           (case env_resize_save env image_path
                                                   (new_width, new_height) of
                                              Inl e \<Rightarrow> Inl e
                                            | Inr temp_path \<Rightarrow>
                                                Inr (temp_path, (new_width, new_height)))))))))"

text \<open>
  The result of \<open>run_inference\<close>: a failure dictionary (\<open>success\<close> false) or the extraction
  (\<open>success\<close> true). The timing and throughput entries are left out. A float literal is
  the decimal it is written as.
\<close>

datatype failure = ImageNotFound string | ModelNotFound | Raised error

record extraction =
  result_text :: string
  result_lines :: "string list"
  bounding_boxes :: "block list"
  confidence :: real
  image_size :: "int \<times> int"
  result_raw_html :: string

datatype outcome = Failed failure | Succeeded extraction

text \<open>From \<open>if bounding_boxes:\<close> to the returned dictionary.\<close>

definition assemble :: "bs4 \<Rightarrow> string \<Rightarrow> int \<times> int \<Rightarrow> block list \<Rightarrow> extraction" where
  "assemble bs raw_html dims boxes =
     (let (txt, lns) = (if boxes \<noteq> [] then (join ''\<newline>'' (map text boxes), map text boxes)
                        else extract_text_from_html bs raw_html);
          conf = (if boxes \<noteq> [] then 0.95 else 0.7)
      in \<lparr>result_text = txt, result_lines = lns, bounding_boxes = boxes, confidence = conf,
          image_size = dims, result_raw_html = raw_html\<rparr>)"

text \<open>
  \<open>run_inference\<close>: \<open>Inl\<close> is an exception that leaves the function. The call of
  \<open>resize_image_if_needed\<close> stands before the \<open>try\<close>; what the \<open>try\<close> catches becomes a
  failure dictionary.
\<close>

definition run_inference :: "env \<Rightarrow> string \<Rightarrow> error + outcome" where
  "run_inference env image_path =
     (if \<not> env_exists env image_path then Inr (Failed (ImageNotFound image_path))
      else if \<not> env_model env then Inr (Failed ModelNotFound)
      else (case resize_image_if_needed env image_path (2048 * 2048) of
              Inl e \<Rightarrow> Inl e
            | Inr (processed_image_path, (image_width, image_height)) \<Rightarrow>
                Inr (case env_generate env processed_image_path of
                       Inl e \<Rightarrow> Failed (Raised e)
                     | Inr raw_html \<Rightarrow>
                        (case parse_layout_blocks (env_bs4 env) raw_html image_width image_height of
                           Inl e \<Rightarrow> Failed (Raised e)
                         | Inr boxes \<Rightarrow>
                             Succeeded (assemble (env_bs4 env) raw_html
                                          (image_width, image_height) boxes)))))"


section \<open>Concrete inputs\<close>

text \<open>
  A markup parser that finds one top-level \<open>div\<close> with the box \<open>[0,0,512,512]\<close>, the label
  \<open>Text\<close> and the text \<open>Hello\<close>, and an environment around it: the image library is
  there, the image is 1000 by 500 pixels, and the inference call returns the markup.
\<close>

definition soup_hello :: "string \<Rightarrow> node list" where
  "soup_hello raw_html =
     [Tag ''div'' [(''data-bbox'', ''[0,0,512,512]''), (''data-label'', ''Text'')]
        [NavigableString ''Hello'']]"

definition env_hello :: env where
  "env_hello =
     \<lparr>env_bs4 = Some soup_hello,
      env_PIL = True,
      env_open_size = (\<lambda>p. Inr (1000, 500)),
      env_pow_half = (\<lambda>f. f),
      env_resize_save = (\<lambda>p dims. Inr (''resized_'' @ p)),
      env_exists = (\<lambda>p. True),
      env_model = True,
      env_generate = (\<lambda>p. Inr ''<div data-bbox=[0,0,512,512] data-label=Text>Hello</div>'')\<rparr>"



text \<open>
  A markup whose first top-level \<open>div\<close> has the box attribute \<open>5\<close> and whose second has a
  well-formed box; and one whose first \<open>div\<close> has a JSON array of four strings.
\<close>

definition soup_number_bbox :: "string \<Rightarrow> node list" where
  "soup_number_bbox raw_html =
     [Tag ''div'' [(''data-bbox'', ''5'')] [NavigableString ''Hello''],
      Tag ''div'' [(''data-bbox'', ''[0,0,512,512]'')] [NavigableString ''World'']]"

definition soup_strings_bbox :: "string \<Rightarrow> node list" where
  "soup_strings_bbox raw_html =
     [Tag ''div'' [(''data-bbox'',
          ''['' @ [CHR 0x22] @ ''a'' @ [CHR 0x22] @ '','' @ [CHR 0x22] @ ''b'' @ [CHR 0x22] @ '',''
          @ [CHR 0x22] @ ''c'' @ [CHR 0x22] @ '','' @ [CHR 0x22] @ ''d'' @ [CHR 0x22] @ '']'')]
        [NavigableString ''Hello''],
      Tag ''div'' [(''data-bbox'', ''[0,0,512,512]'')] [NavigableString ''World'']]"




section \<open>Properties of the string operations\<close>

lemma isspace_newline: "isspace CHR ''\<newline>''"
  by (simp add: isspace_def)

lemma not_isspace_space_only: "\<not> isspace c \<Longrightarrow> c \<noteq> CHR ''\<newline>''"
  using isspace_newline by auto

lemma sub_spaces_no_newline: "CHR ''\<newline>'' \<notin> set (sub_spaces s)"
proof (induction s rule: sub_spaces.induct)
  case 1
  show ?case by simp
next
  case (2 c cs)
  then show ?case by (auto dest: not_isspace_space_only)
qed

lemma strip_subset: "set (strip s) \<subseteq> set s"
proof -
  have "set (strip s) = set (dropWhile isspace (rev (dropWhile isspace s)))"
    by (simp add: strip_def)
  also have "\<dots> \<subseteq> set (rev (dropWhile isspace s))"
    by (rule set_dropWhileD [THEN subsetI])
  also have "\<dots> \<subseteq> set s"
    by (auto dest: set_dropWhileD)
  finally show ?thesis .
qed

lemma split_on_absent: "c \<notin> set s \<Longrightarrow> split_on c s = [s]"
  by (induction s) auto

lemma strip_empty_iff: "strip s = [] \<longleftrightarrow> (\<forall>c \<in> set s. isspace c)"
proof
  assume "strip s = []"
  then have "dropWhile isspace (rev (dropWhile isspace s)) = []"
    by (simp add: strip_def)
  then have "\<forall>c \<in> set (dropWhile isspace s). isspace c"
    by (simp add: dropWhile_eq_Nil_conv)
  moreover have "c \<in> set s \<Longrightarrow> \<not> isspace c \<Longrightarrow> c \<in> set (dropWhile isspace s)" for c
    by (induction s) auto
  ultimately show "\<forall>c \<in> set s. isspace c" by blast
next
  assume "\<forall>c \<in> set s. isspace c"
  then have dw: "dropWhile isspace s = []" by (simp add: dropWhile_eq_Nil_conv)
  show "strip s = []" unfolding strip_def dw by simp
qed

lemma strip_ends:
  assumes "strip s \<noteq> []"
  shows "\<not> isspace (hd (strip s))" and "\<not> isspace (last (strip s))"
proof -
  let ?d = "dropWhile isspace s"
  let ?e = "dropWhile isspace (rev ?d)"
  from assms have e: "?e \<noteq> []" by (simp add: strip_def)
  have d: "?d \<noteq> []"
  proof
    assume a: "?d = []"
    have "?e = []" unfolding a by simp
    with e show False by blast
  qed
  have he: "\<not> isspace (hd ?e)" using e by (rule hd_dropWhile)
  have hd_d: "\<not> isspace (hd ?d)" using d by (rule hd_dropWhile)
  have "last (rev ?e) = hd ?e" using e by (simp add: last_rev)
  then show "\<not> isspace (last (strip s))" using he by (simp add: strip_def)
  have "\<exists>ys. rev ?d = ys @ ?e" by (metis takeWhile_dropWhile_id)
  then obtain ys where "rev ?d = ys @ ?e" ..
  then have "?d = rev ?e @ rev ys" by (metis rev_append rev_rev_ident)
  then have "hd ?d = hd (rev ?e)" using e by (metis hd_append2 rev_is_Nil_conv)
  then show "\<not> isspace (hd (strip s))" using hd_d by (simp add: strip_def)
qed

lemma strip_fixed:
  assumes "s = [] \<or> (\<not> isspace (hd s) \<and> \<not> isspace (last s))"
  shows "strip s = s"
proof (cases "s = []")
  case True
  then show ?thesis by (simp add: strip_def)
next
  case False
  with assms have h: "\<not> isspace (hd s)" and l: "\<not> isspace (last s)" by auto
  from False h have 1: "dropWhile isspace s = s" by (cases s) auto
  from False l have "\<not> isspace (hd (rev s))" by (simp add: hd_rev)
  with False have 2: "dropWhile isspace (rev s) = rev s" by (cases "rev s") auto
  show ?thesis by (simp add: strip_def 1 2)
qed

lemma strip_strip: "strip (strip s) = strip s"
  by (rule strip_fixed) (use strip_ends in blast)

lemma join_singleton_or_empty: "join sep (if t = [] then [] else [t]) = t"
  by simp

lemma degraded_lines:
  fixes raw_html :: string
  defines "txt \<equiv> strip (sub_spaces (sub_tags raw_html))"
  shows "map strip (filter (\<lambda>line. strip line \<noteq> []) (split_on CHR ''\<newline>'' txt))
         = (if txt = [] then [] else [txt])"
proof -
  have "CHR ''\<newline>'' \<notin> set txt"
    unfolding txt_def using strip_subset sub_spaces_no_newline by blast
  then have sp: "split_on CHR ''\<newline>'' txt = [txt]" by (rule split_on_absent)
  have st: "strip txt = txt" unfolding txt_def by (rule strip_strip)
  show ?thesis by (simp add: sp st)
qed

lemma all_strings_pieces:
  "p \<in> set (all_strings n) \<Longrightarrow> p \<noteq> [] \<and> \<not> isspace (hd p) \<and> \<not> isspace (last p)"
proof (induction n arbitrary: p)
  case (NavigableString s)
  then show ?case by (auto simp: Let_def strip_ends split: if_splits)
next
  case (Comment s)
  then show ?case by simp
next
  case (Tag name attrs children)
  then show ?case by auto
qed

lemma join_hd:
  "ps \<noteq> [] \<Longrightarrow> \<forall>p \<in> set ps. p \<noteq> [] \<Longrightarrow> join sep ps \<noteq> [] \<and> hd (join sep ps) = hd (hd ps)"
  by (induction sep ps rule: join.induct) auto

lemma join_nonempty_obtains: "join sep ps \<noteq> [] \<Longrightarrow> ps \<noteq> []"
  by (cases ps) auto

lemma get_text_strip_nonempty:
  assumes "get_text n \<noteq> []"
  shows "strip (get_text n) \<noteq> []"
proof -
  let ?ps = "all_strings n"
  from assms have ne: "?ps \<noteq> []" unfolding get_text_def by (rule join_nonempty_obtains)
  have all: "\<forall>p \<in> set ?ps. p \<noteq> []" using all_strings_pieces by blast
  from join_hd [OF ne all] have h: "hd (get_text n) = hd (hd ?ps)"
    by (simp add: get_text_def)
  from ne have "hd ?ps \<in> set ?ps" by simp
  then have "\<not> isspace (hd (hd ?ps))" using all_strings_pieces by blast
  with h have "\<not> isspace (hd (get_text n))" by simp
  moreover from assms have "hd (get_text n) \<in> set (get_text n)" by simp
  ultimately show ?thesis using strip_empty_iff by blast
qed

section \<open>Properties of the block loop\<close>




section \<open>Exact cases of the float arithmetic\<close>








section \<open>Properties of the box parser\<close>









section \<open>Rounding error of the float arithmetic\<close>

















section \<open>The emitted blocks\<close>





section \<open>The fallback's result\<close>

text \<open>
  C8: for every markup, with the markup parser and without it, the text returned by
  \<open>extract_text_from_html\<close> is its line list joined by newlines, and every line is
  non-empty after stripping.
\<close>

theorem extract_text_shape:
  "fst (extract_text_from_html bs raw_html) = join ''\<newline>'' (snd (extract_text_from_html bs raw_html))
   \<and> (\<forall>line \<in> set (snd (extract_text_from_html bs raw_html)). strip line \<noteq> [])"
proof (cases bs)
  case None
  let ?text = "strip (sub_spaces (sub_tags raw_html))"
  have st: "strip ?text = ?text" by (rule strip_strip)
  show ?thesis
    using st by (simp add: None extract_text_from_html_def Let_def degraded_lines)
next
  case (Some BeautifulSoup)
  show ?thesis
    by (auto simp: Some extract_text_from_html_def Let_def get_text_strip_nonempty)
qed

theorem extract_text_shape_witness:
  "snd (extract_text_from_html None ''<b>Hi</b>'') = [''Hi'']
   \<and> fst (extract_text_from_html None ''<b>Hi</b>'') = join ''\<newline>'' [''Hi'']
   \<and> strip ''Hi'' \<noteq> []"
proof -
  have s: "snd (extract_text_from_html None ''<b>Hi</b>'') = [''Hi'']"
    by (simp add: extract_text_from_html_def Let_def strip_def isspace_def)
  show ?thesis
    using extract_text_shape [of None "''<b>Hi</b>''"] s by simp
qed

text \<open>
  C10: without the markup parser, the line list of \<open>extract_text_from_html\<close> has at most one
  element: after the whitespace runs are collapsed no newline is left to split at.
\<close>

theorem degraded_at_most_one_line:
  "length (snd (extract_text_from_html None raw_html)) \<le> 1"
  by (simp add: extract_text_from_html_def Let_def degraded_lines)

section \<open>Malformed box attributes\<close>

text \<open>
  C3 (the code does not do what the claim says): a box attribute that is the JSON number
  \<open>5\<close> makes \<open>len\<close> raise \<open>TypeError\<close>, and a JSON array of four strings makes \<open>int\<close> raise
  \<open>ValueError\<close>; neither is caught, so \<open>parse_layout_blocks\<close> raises and returns no block
  at all, the well-formed second block included, and \<open>run_inference\<close> reports a failure.
\<close>

theorem malformed_bbox_aborts_parse:
  "parse_layout_blocks (Some soup_number_bbox) [] 1000 500 = Inl TypeError
   \<and> parse_layout_blocks (Some soup_strings_bbox) [] 1000 500 = Inl ValueError
   \<and> run_inference (env_hello\<lparr>env_bs4 := Some soup_number_bbox\<rparr>) ''page.png''
       = Inr (Failed (Raised TypeError))"
  by code_simp

section \<open>The image size normalizer\<close>




text \<open>
  C5: an image of \<open>w\<close> by \<open>h\<close> pixels with \<open>w * h \<le> max_pixels\<close> is not resized:
  \<open>resize_image_if_needed\<close> returns the path it was given and the dimensions \<open>(w, h)\<close>.
\<close>

theorem small_image_unchanged:
  assumes "env_PIL env"
    and "env_open_size env image_path = Inr (w, h)"
    and "0 < w" and "0 < h"
    and "w * h \<le> max_pixels"
  shows "resize_image_if_needed env image_path max_pixels = Inr (image_path, (w, h))"
  using assms by (simp add: resize_image_if_needed_def)

theorem small_image_unchanged_witness:
  "env_PIL env_hello \<and> env_open_size env_hello ''page.png'' = Inr (1000, 500)
   \<and> (1000::int) * 500 \<le> 2048 * 2048
   \<and> resize_image_if_needed env_hello ''page.png'' (2048 * 2048) = Inr (''page.png'', (1000, 500))"
proof -
  have a: "env_PIL env_hello" by (simp add: env_hello_def)
  have b: "env_open_size env_hello ''page.png'' = Inr (1000, 500)" by (simp add: env_hello_def)
  have c: "(1000::int) * 500 \<le> 2048 * 2048" by simp
  from small_image_unchanged [OF a b _ _ c] a b c show ?thesis by simp
qed

section \<open>The assemble step\<close>



section \<open>Rescaling and clamping\<close>



section \<open>The pixel budget of the normalizer\<close>




end
